theory Spec2Isabelle
  imports Complex_Main "HOL-Library.Word"
begin

section \<open>JavaScript strings\<close>

text \<open>
  A JavaScript string is a sequence of 16-bit code units. String literals of the source
  are ASCII and are written through \<open>ascii\<close>.
\<close>

type_synonym jsstring = "16 word list"

definition ascii :: "string \<Rightarrow> jsstring" where
  "ascii s = map of_char s"

definition LF :: "16 word" where
  "LF = 0x0A"

definition CR :: "16 word" where
  "CR = 0x0D"

text \<open>
  \<open>String.prototype.trim\<close> removes the code units of the ECMAScript productions
  WhiteSpace and LineTerminator from both ends.
\<close>

definition is_white_space :: "16 word \<Rightarrow> bool" where
  "is_white_space c \<longleftrightarrow>
     c = 0x0009 \<or> c = 0x000A \<or> c = 0x000B \<or> c = 0x000C \<or> c = 0x000D \<or> c = 0x0020 \<or>
     c = 0x00A0 \<or> c = 0x1680 \<or> (0x2000 \<le> c \<and> c \<le> 0x200A) \<or> c = 0x2028 \<or>
     c = 0x2029 \<or> c = 0x202F \<or> c = 0x205F \<or> c = 0x3000 \<or> c = 0xFEFF"

definition trim :: "jsstring \<Rightarrow> jsstring" where
  "trim s = rev (dropWhile is_white_space (rev (dropWhile is_white_space s)))"

text \<open>\<open>s.startsWith(p)\<close>, \<open>s.substring(n)\<close> and \<open>s.slice(n)\<close> for \<open>n \<ge> 0\<close>.\<close>

definition startsWith :: "jsstring \<Rightarrow> jsstring \<Rightarrow> bool" where
  "startsWith s p \<longleftrightarrow> take (length p) s = p"

definition substring :: "jsstring \<Rightarrow> nat \<Rightarrow> jsstring" where
  "substring s n = drop n s"

definition slice :: "jsstring \<Rightarrow> nat \<Rightarrow> jsstring" where
  "slice s n = drop n s"

text \<open>\<open>a.join(sep)\<close> on an array of strings.\<close>

fun join :: "jsstring list \<Rightarrow> jsstring \<Rightarrow> jsstring" where
  "join [] sep = []"
| "join [x] sep = x"
| "join (x # y # ys) sep = x @ sep @ join (y # ys) sep"

text \<open>
  \<open>s.split(/\r?\n/g)\<close>: the text is scanned from the left; at a position where a
  carriage return is followed by a line feed both are consumed, at a lone line feed
  one code unit is consumed, and the text between two separators is one element.
  The first argument is the element collected so far. The empty text gives one
  empty element.
\<close>

fun split_from :: "jsstring \<Rightarrow> jsstring \<Rightarrow> jsstring list" where
  "split_from cur [] = [cur]"
| "split_from cur [c] = (if c = LF then [cur, []] else [cur @ [c]])"
| "split_from cur (c # d # ds) =
     (if c = CR \<and> d = LF then cur # split_from [] ds
      else if c = LF then cur # split_from [] (d # ds)
      else split_from (cur @ [c]) (d # ds))"

definition split_lines :: "jsstring \<Rightarrow> jsstring list" where
  "split_lines s = split_from [] s"

section \<open>Values of the settings payload\<close>

text \<open>
  A JavaScript number is not-a-number, an infinity or a finite value; the finite
  doubles are rationals, and comparison on them is exact.
\<close>

datatype jsnumber = NaN | NegInfinity | Finite rat | PosInfinity

text \<open>
  The source is compiled without strict null checks: it assigns \<open>null\<close> to variables
  of the types \<open>number\<close> and \<open>DiagnosticSeverity\<close>. A value of a declared type is
  therefore \<open>undefined\<close> (also what an absent property reads as), \<open>null\<close>, or a
  value of the type.
\<close>

datatype 'a nullable = Undefined | Null | Value 'a

text \<open>The interfaces \<open>AnsibleSettings\<close> and \<open>Settings\<close> of the settings payload.\<close>

record AnsibleSettings =
  maxNumberOfProblems_setting :: "jsnumber nullable"

record Settings =
  ansibleLanguageServer :: "AnsibleSettings nullable"

datatype js_error = TypeError

text \<open>
  Reading a property \<open>f\<close> of a value: a \<open>TypeError\<close> on \<open>undefined\<close> and on
  \<open>null\<close>.
\<close>

fun property :: "'a nullable \<Rightarrow> ('a \<Rightarrow> 'b) \<Rightarrow> js_error + 'b" where
  "property Undefined f = Inl TypeError"
| "property Null f = Inl TypeError"
| "property (Value x) f = Inr (f x)"

text \<open>ToBoolean of a number, as \<open>||\<close> applies it to its left operand.\<close>

fun is_truthy :: "jsnumber nullable \<Rightarrow> bool" where
  "is_truthy Undefined = False"
| "is_truthy Null = False"
| "is_truthy (Value NaN) = False"
| "is_truthy (Value (Finite q)) = (q \<noteq> 0)"
| "is_truthy (Value _) = True"

text \<open>ToNumber: \<open>undefined\<close> is not-a-number and \<open>null\<close> is zero.\<close>

fun to_number :: "jsnumber nullable \<Rightarrow> jsnumber" where
  "to_number Undefined = NaN"
| "to_number Null = Finite 0"
| "to_number (Value n) = n"

text \<open>
  \<open>problems < v\<close> for the counter \<open>problems\<close>, a non-negative integer: false when
  \<open>v\<close> converts to not-a-number.
\<close>

fun less_number :: "nat \<Rightarrow> jsnumber \<Rightarrow> bool" where
  "less_number p NaN = False"
| "less_number p NegInfinity = False"
| "less_number p (Finite q) = (of_nat p < q)"
| "less_number p PosInfinity = True"

definition js_less :: "nat \<Rightarrow> jsnumber nullable \<Rightarrow> bool" where
  "js_less p v = less_number p (to_number v)"

section \<open>Diagnostics\<close>

datatype DiagnosticSeverity = Error | Warning | Information | Hint

record Position =
  line :: nat
  character :: int

record Range =
  start :: Position
  end_pos :: Position

record Diagnostic =
  severity :: DiagnosticSeverity
  range_of :: Range
  message :: jsstring
  source :: jsstring

text \<open>\<open>Number.MAX_VALUE\<close>, the largest finite double: \<open>(2^53 - 1) * 2^971\<close>.\<close>

definition Number_MAX_VALUE :: int where
  "Number_MAX_VALUE = (2 ^ 53 - 1) * 2 ^ 971"

definition WARNING :: jsstring where
  "WARNING = ascii ''[WARNING] ''"

definition ERROR :: jsstring where
  "ERROR = ascii ''ERROR! ''"

section \<open>The external command runner (exec)\<close>

text \<open>
  The code of the error that \<open>child_process.exec\<close> reports: an exit status, the name
  of a system error, \<open>null\<close>, or nothing. The \<open>exitCode\<close> of a result is one of
  these.
\<close>

datatype code_value = CodeUndefined | CodeNull | CodeNumber int | CodeName jsstring

record exec_error =
  code :: code_value

record ExecResult =
  stdout :: jsstring
  stderr :: jsstring
  exitCode :: code_value

section \<open>The server\<close>

text \<open>The module-level variables \<open>diagnostics\<close> and \<open>maxNumberOfProblems\<close>.\<close>

record server_vars =
  diagnostics :: "Diagnostic list"
  maxNumberOfProblems :: "jsnumber nullable"

text \<open>
  The body of the loop of \<open>handler\<close> at index \<open>i\<close>, on the counter \<open>problems\<close> and
  the list \<open>diagnostics\<close>.
\<close>

definition handler_body ::
  "jsstring list \<Rightarrow> nat \<Rightarrow> nat \<times> Diagnostic list \<Rightarrow> nat \<times> Diagnostic list" where
  "handler_body lines i pd =
     (let line = trim (lines ! i);
          (sev, msg) =
            (if startsWith line WARNING then (Some Warning, substring line (length WARNING))
             else if startsWith line ERROR then (Some Error, substring line (length ERROR))
             else (None, []))
      in case sev of
           Some s \<Rightarrow>
             (fst pd + 1,
              snd pd @ [\<lparr>severity = s,
                         range_of = \<lparr>start = \<lparr>line = i, character = Number_MAX_VALUE\<rparr>,
                                     end_pos = \<lparr>line = i, character = Number_MAX_VALUE\<rparr>\<rparr>,
                         message = msg,
                         source = ascii ''ex''\<rparr>])
         | None \<Rightarrow> pd)"

text \<open>
  The loop \<open>for (i = 0; i < lines.length && problems < maxNumberOfProblems; i++)\<close>;
  the body is entered only with \<open>i\<close> inside the array. The result is the index at
  which the loop was left, with the counter and the list.
\<close>

function handler_loop ::
  "jsstring list \<Rightarrow> jsnumber nullable \<Rightarrow> nat \<Rightarrow> nat \<times> Diagnostic list
     \<Rightarrow> nat \<times> nat \<times> Diagnostic list" where
  "handler_loop lines maxp i pd =
     (if i < length lines \<and> js_less (fst pd) maxp
      then handler_loop lines maxp (i + 1) (handler_body lines i pd)
      else (i, pd))"
  by pat_completeness auto
termination
  by (relation "measure (\<lambda>(lines, maxp, i, pd). length lines - i)") auto

text \<open>
  \<open>handler\<close>: the counter starts at 0, the stderr text is split, the list is emptied,
  and the loop fills it.
\<close>

definition handler :: "ExecResult \<Rightarrow> server_vars \<Rightarrow> server_vars" where
  "handler result g =
     (let problems = 0;
          lines = split_lines (stderr result);
          g1 = g\<lparr>diagnostics := []\<rparr>
      in g1\<lparr>diagnostics :=
             snd (snd (handler_loop lines (maxNumberOfProblems g1) 0
                         (problems, diagnostics g1)))\<rparr>)"

text \<open>
  What the server sends over the connection: a line on the client's console, or a
  notification with the diagnostics of a document.
\<close>

datatype sent_message = ConsoleLog jsstring | PublishDiagnostics jsstring "Diagnostic list"

text \<open>
  A child process started by \<open>child_process.exec\<close>, with the callback Node keeps for
  its termination. The callbacks of this server work on the module-level variables.
\<close>

record child_process =
  cmdLine :: jsstring
  callback :: "exec_error option \<Rightarrow> jsstring \<Rightarrow> jsstring \<Rightarrow> server_vars \<Rightarrow> server_vars"

text \<open>
  The server process: its variables, the children that have not terminated yet, and
  what it has sent so far, oldest first.
\<close>

record world =
  vars :: server_vars
  children :: "child_process list"
  sent :: "sent_message list"

definition initial_world :: world where
  "initial_world =
     \<lparr>vars = \<lparr>diagnostics = [], maxNumberOfProblems = Undefined\<rparr>, children = [], sent = []\<rparr>"

text \<open>
  \<open>child_process.exec(cmdLine, callback)\<close> starts the child and returns; the callback
  runs in a later turn of the event loop, when the child has terminated.
\<close>

definition nodeExec ::
  "jsstring \<Rightarrow> (exec_error option \<Rightarrow> jsstring \<Rightarrow> jsstring \<Rightarrow> server_vars \<Rightarrow> server_vars)
     \<Rightarrow> world \<Rightarrow> world" where
  "nodeExec cmd cb w = w\<lparr>children := children w @ [\<lparr>cmdLine = cmd, callback = cb\<rparr>]\<rparr>"

text \<open>
  The \<open>k\<close>-th running child terminates: Node calls its callback with the error (none
  on success) and the captured output, and the child is gone.
\<close>

definition child_exit ::
  "nat \<Rightarrow> exec_error option \<Rightarrow> jsstring \<Rightarrow> jsstring \<Rightarrow> world \<Rightarrow> world" where
  "child_exit k error out err w =
     (if k < length (children w)
      then w\<lparr>vars := callback (children w ! k) error out err (vars w),
             children := take k (children w) @ drop (Suc k) (children w)\<rparr>
      else w)"

definition new_ExecResult :: ExecResult where
  "new_ExecResult = \<lparr>stdout = [], stderr = [], exitCode = CodeUndefined\<rparr>"

definition NodeExec_exec ::
  "jsstring \<Rightarrow> jsstring list \<Rightarrow> (ExecResult \<Rightarrow> server_vars \<Rightarrow> server_vars) \<Rightarrow> world \<Rightarrow> world" where
  "NodeExec_exec filename cmdLineArgs handleResult w =
     (let result = new_ExecResult\<lparr>exitCode := CodeNull\<rparr>;
          cmd = filename @ ascii '' '' @ join cmdLineArgs (ascii '' '')
      in nodeExec cmd
           (\<lambda>error out err.
              handleResult
                (result\<lparr>stdout := out, stderr := err,
                        exitCode := (case error of None \<Rightarrow> CodeNumber 0 | Some e \<Rightarrow> code e)\<rparr>))
           w)"

definition console_log :: "jsstring \<Rightarrow> world \<Rightarrow> world" where
  "console_log msg w = w\<lparr>sent := sent w @ [ConsoleLog msg]\<rparr>"

definition sendDiagnostics :: "jsstring \<Rightarrow> Diagnostic list \<Rightarrow> world \<Rightarrow> world" where
  "sendDiagnostics u ds w = w\<lparr>sent := sent w @ [PublishDiagnostics u ds]\<rparr>"

record TextDocument =
  uri :: jsstring

definition validateTextDocument :: "TextDocument \<Rightarrow> world \<Rightarrow> world" where
  "validateTextDocument playbook w =
     (let playbookUri = uri playbook in
      if \<not> startsWith (uri playbook) (ascii ''file:'') then w
      else
        let args = [ascii ''-i'', ascii ''\"localhost,\"'', ascii ''-c'', ascii ''local'',
                    ascii ''--syntax-check'', slice playbookUri 7];
            w1 = console_log (slice playbookUri 7) w;
            w2 = NodeExec_exec (ascii ''ansible-playbook'') args handler w1
        in sendDiagnostics playbookUri (diagnostics (vars w2)) w2)"

text \<open>
  The handler of a configuration change, on \<open>change.settings\<close> and the documents that
  \<open>documents.all()\<close> returns. Reading a property of \<open>undefined\<close> or \<open>null\<close> throws
  before anything is assigned.
\<close>

definition onDidChangeConfiguration ::
  "Settings nullable \<Rightarrow> TextDocument list \<Rightarrow> world \<Rightarrow> js_error + world" where
  "onDidChangeConfiguration settings docs w =
     (case property settings ansibleLanguageServer of
        Inl e \<Rightarrow> Inl e
      | Inr als \<Rightarrow>
          (case property als maxNumberOfProblems_setting of
             Inl e \<Rightarrow> Inl e
           | Inr v \<Rightarrow>
               Inr (foldl (\<lambda>w' d. validateTextDocument d w')
                      (w\<lparr>vars := (vars w)\<lparr>maxNumberOfProblems :=
                                    (if is_truthy v then v else Value (Finite 100))\<rparr>\<rparr>)
                      docs)))"

section \<open>The classifier as the specification words it\<close>

text \<open>
  The rule for one line, from the specification: the line is trimmed; a line that starts
  with \<open>[WARNING] \<close> gives a Warning whose message is the rest of the trimmed line, else a
  line that starts with \<open>ERROR! \<close> gives an Error in the same way, and any other line
  gives nothing. The range is of width zero, at the index of the line and the largest
  number.
\<close>

definition line_diagnostic :: "nat \<Rightarrow> jsstring \<Rightarrow> Diagnostic list" where
  "line_diagnostic i raw =
     (let t = trim raw;
          at_line = \<lparr>start = \<lparr>line = i, character = Number_MAX_VALUE\<rparr>,
                     end_pos = \<lparr>line = i, character = Number_MAX_VALUE\<rparr>\<rparr>
      in if startsWith t (ascii ''[WARNING] '')
         then [\<lparr>severity = Warning, range_of = at_line, message = drop 10 t,
                 source = ascii ''ex''\<rparr>]
         else if startsWith t (ascii ''ERROR! '')
         then [\<lparr>severity = Error, range_of = at_line, message = drop 7 t,
                 source = ascii ''ex''\<rparr>]
         else [])"

text \<open>
  \<open>classify(stderrText, maxProblems)\<close> of the specification: the results of the lines in
  their order, cut off after \<open>maxProblems\<close> of them.
\<close>

definition classify :: "jsstring \<Rightarrow> nat \<Rightarrow> Diagnostic list" where
  "classify stderrText maxProblems =
     take maxProblems
       (concat (map (\<lambda>(i, l). line_diagnostic i l) (enumerate 0 (split_lines stderrText))))"

text \<open>
  How many diagnostics a value of the maximum admits: the number of counter values that
  are below it, or no bound when every counter value is.
\<close>

definition budget :: "jsnumber nullable \<Rightarrow> nat option" where
  "budget v =
     (case to_number v of
        NaN \<Rightarrow> Some 0
      | NegInfinity \<Rightarrow> Some 0
      | Finite q \<Rightarrow> Some (nat \<lceil>q\<rceil>)
      | PosInfinity \<Rightarrow> None)"

section \<open>The loop of the handler\<close>

declare handler_loop.simps [simp del]

lemma length_WARNING: "length WARNING = 10"
  by (simp add: WARNING_def ascii_def)

lemma length_ERROR: "length ERROR = 7"
  by (simp add: ERROR_def ascii_def)

lemma handler_body_eq:
  "handler_body lines i pd =
     (fst pd + length (line_diagnostic i (lines ! i)), snd pd @ line_diagnostic i (lines ! i))"
  by (simp add: handler_body_def line_diagnostic_def Let_def length_WARNING length_ERROR
      substring_def WARNING_def [symmetric] ERROR_def [symmetric])

lemma length_line_diagnostic: "length (line_diagnostic i l) \<le> 1"
  by (simp add: line_diagnostic_def Let_def)

lemma js_less_budget_Some: "budget v = Some b \<Longrightarrow> js_less p v \<longleftrightarrow> p < b"
proof -
  have "rat_of_nat p < q \<longleftrightarrow> p < nat \<lceil>q\<rceil>" for q
  proof -
    have "int p < \<lceil>q\<rceil> \<longleftrightarrow> rat_of_nat p < q"
      using less_ceiling_iff [of "int p" q] by simp
    then show ?thesis by linarith
  qed
  then show "budget v = Some b \<Longrightarrow> js_less p v \<longleftrightarrow> p < b"
    by (auto simp: budget_def js_less_def split: jsnumber.splits)
qed

lemma js_less_budget_None: "budget v = None \<Longrightarrow> js_less p v"
  by (auto simp: budget_def js_less_def split: jsnumber.splits)

lemma budget_nat: "budget (Value (Finite (of_nat m))) = Some m"
  by (simp add: budget_def)

lemma handler_loop_step:
  "i < length lines \<Longrightarrow> js_less (fst pd) maxp \<Longrightarrow>
   handler_loop lines maxp i pd = handler_loop lines maxp (i + 1) (handler_body lines i pd)"
  using handler_loop.simps [of lines maxp i pd] by simp

lemma handler_loop_stop:
  "\<not> (i < length lines \<and> js_less (fst pd) maxp) \<Longrightarrow> handler_loop lines maxp i pd = (i, pd)"
  using handler_loop.simps [of lines maxp i pd] by auto

text \<open>
  With a bound \<open>m\<close> on the counter, the loop appends the results of the lines from
  \<open>i\<close> on, up to what is left of the bound; without a bound it appends them all.
\<close>

lemma handler_loop_closed:
  assumes "budget maxp = Some m" and "p \<le> m"
  shows "snd (snd (handler_loop lines maxp i (p, ds))) =
           ds @ take (m - p)
                  (concat (map (\<lambda>(j, l). line_diagnostic j l) (enumerate i (drop i lines))))"
  using assms
proof (induction lines maxp i "(p, ds)" arbitrary: p ds rule: handler_loop.induct)
  case (1 lines maxp i)
  let ?ld = "line_diagnostic i (lines ! i)"
  show ?case
  proof (cases "i < length lines \<and> p < m")
    case True
    then have guard: "i < length lines \<and> js_less (fst (p, ds)) maxp"
      using "1.prems" by (simp add: js_less_budget_Some)
    have le: "p + length ?ld \<le> m"
      using True length_line_diagnostic [of i "lines ! i"] by linarith
    have body: "handler_body lines i (p, ds) = (p + length ?ld, ds @ ?ld)"
      by (simp add: handler_body_eq)
    have IH: "snd (snd (handler_loop lines maxp (i + 1) (p + length ?ld, ds @ ?ld))) =
        (ds @ ?ld) @ take (m - (p + length ?ld))
          (concat (map (\<lambda>(j, l). line_diagnostic j l) (enumerate (i + 1) (drop (i + 1) lines))))"
      using "1.hyps" [OF guard body "1.prems"(1) le] .
    have dr: "drop i lines = lines ! i # drop (i + 1) lines"
      using True by (simp add: Cons_nth_drop_Suc)
    have "handler_loop lines maxp i (p, ds) =
            handler_loop lines maxp (i + 1) (p + length ?ld, ds @ ?ld)"
      using guard body handler_loop_step [of i lines "(p, ds)" maxp] by simp
    then show ?thesis
      using IH le by (simp add: dr)
  next
    case False
    then have "\<not> (i < length lines \<and> js_less (fst (p, ds)) maxp)"
      using "1.prems" by (simp add: js_less_budget_Some)
    then have "handler_loop lines maxp i (p, ds) = (i, p, ds)"
      by (rule handler_loop_stop)
    moreover have "take (m - p)
        (concat (map (\<lambda>(j, l). line_diagnostic j l) (enumerate i (drop i lines)))) = []"
      using False "1.prems" by (cases "i < length lines") auto
    ultimately show ?thesis by simp
  qed
qed

lemma handler_loop_unbounded:
  assumes "budget maxp = None"
  shows "snd (snd (handler_loop lines maxp i pd)) =
           snd pd @ concat (map (\<lambda>(j, l). line_diagnostic j l) (enumerate i (drop i lines)))"
  using assms
proof (induction lines maxp i pd rule: handler_loop.induct)
  case (1 lines maxp i pd)
  show ?case
  proof (cases "i < length lines")
    case True
    then have guard: "i < length lines \<and> js_less (fst pd) maxp"
      using "1.prems" by (simp add: js_less_budget_None)
    have dr: "drop i lines = lines ! i # drop (i + 1) lines"
      using True by (simp add: Cons_nth_drop_Suc)
    show ?thesis
      using "1.IH" [OF guard "1.prems"] handler_loop_step [of i lines pd maxp] guard
      by (simp add: dr handler_body_eq)
  next
    case False
    then show ?thesis
      using handler_loop_stop [of i lines pd maxp] by simp
  qed
qed

lemma handler_classify:
  "budget (maxNumberOfProblems g) = Some m \<Longrightarrow>
   diagnostics (handler r g) = classify (stderr r) m"
  using handler_loop_closed [of "maxNumberOfProblems g" m 0 "split_lines (stderr r)" 0 "[]"]
  by (simp add: handler_def classify_def Let_def)

lemma handler_unbounded:
  "budget (maxNumberOfProblems g) = None \<Longrightarrow>
   diagnostics (handler r g) =
     concat (map (\<lambda>(i, l). line_diagnostic i l) (enumerate 0 (split_lines (stderr r))))"
  using handler_loop_unbounded [of "maxNumberOfProblems g" "split_lines (stderr r)" 0 "(0, [])"]
  by (simp add: handler_def Let_def)

section \<open>The rule for each line\<close>

text \<open>
  C3, as amended. The diagnostics that the handler leaves are the results, in the order
  of the lines, of this rule applied to the lines of the split stderr text, as long as
  the number of diagnostics emitted so far is below the maximum: the line is trimmed; if
  the trimmed line starts with \<open>[WARNING] \<close>, a Warning whose message is the rest of the
  trimmed line; else if it starts with \<open>ERROR! \<close>, an Error with the rest as message;
  otherwise nothing, and the count does not change. A matching line that is reached when
  the count is no longer below the maximum gives nothing. So the list is the first \<open>b\<close>
  results when \<open>b\<close> counter values are below the maximum, and all results when every
  counter value is.
\<close>

theorem handler_applies_line_rule:
  "diagnostics (handler r g) =
     (case budget (maxNumberOfProblems g) of
        None \<Rightarrow>
          concat (map (\<lambda>(i, l). line_diagnostic i l) (enumerate 0 (split_lines (stderr r))))
      | Some b \<Rightarrow>
          take b (concat (map (\<lambda>(i, l). line_diagnostic i l)
                            (enumerate 0 (split_lines (stderr r))))))"
proof (cases "budget (maxNumberOfProblems g)")
  case None
  then show ?thesis
    using handler_unbounded [of g r] by simp
next
  case (Some b)
  then show ?thesis
    using handler_classify [of g b r] by (simp add: classify_def)
qed

theorem handler_applies_line_rule_witness:
  "budget (Value (Finite 5)) = Some 5 \<and>
   diagnostics
     (handler
        \<lparr>stdout = [],
         stderr = ascii ''  [WARNING] syntax issue on line 4'' @ [CR, LF] @
                  ascii ''playbook: site.yml'' @ [LF] @ ascii ''ERROR! bad module name'',
         exitCode = CodeNumber 4\<rparr>
        \<lparr>diagnostics = [], maxNumberOfProblems = Value (Finite 5)\<rparr>) =
     [\<lparr>severity = Warning,
       range_of = \<lparr>start = \<lparr>line = 0, character = Number_MAX_VALUE\<rparr>,
                   end_pos = \<lparr>line = 0, character = Number_MAX_VALUE\<rparr>\<rparr>,
       message = ascii ''syntax issue on line 4'', source = ascii ''ex''\<rparr>,
      \<lparr>severity = Error,
       range_of = \<lparr>start = \<lparr>line = 2, character = Number_MAX_VALUE\<rparr>,
                   end_pos = \<lparr>line = 2, character = Number_MAX_VALUE\<rparr>\<rparr>,
       message = ascii ''bad module name'', source = ascii ''ex''\<rparr>]"
proof -
  let ?g = "\<lparr>diagnostics = [], maxNumberOfProblems = Value (Finite 5)\<rparr>"
  let ?r = "\<lparr>stdout = [],
             stderr = ascii ''  [WARNING] syntax issue on line 4'' @ [CR, LF] @
                      ascii ''playbook: site.yml'' @ [LF] @ ascii ''ERROR! bad module name'',
             exitCode = CodeNumber 4\<rparr>"
  have h: "budget (maxNumberOfProblems ?g) = Some 5"
    by (simp add: budget_def)
  have v: "take 5 (concat (map (\<lambda>(i, l). line_diagnostic i l)
                            (enumerate 0 (split_lines (stderr ?r))))) =
     [\<lparr>severity = Warning,
       range_of = \<lparr>start = \<lparr>line = 0, character = Number_MAX_VALUE\<rparr>,
                   end_pos = \<lparr>line = 0, character = Number_MAX_VALUE\<rparr>\<rparr>,
       message = ascii ''syntax issue on line 4'', source = ascii ''ex''\<rparr>,
      \<lparr>severity = Error,
       range_of = \<lparr>start = \<lparr>line = 2, character = Number_MAX_VALUE\<rparr>,
                   end_pos = \<lparr>line = 2, character = Number_MAX_VALUE\<rparr>\<rparr>,
       message = ascii ''bad module name'', source = ascii ''ex''\<rparr>]"
    by code_simp
  have "diagnostics (handler ?r ?g) =
      take 5 (concat (map (\<lambda>(i, l). line_diagnostic i l)
                        (enumerate 0 (split_lines (stderr ?r)))))"
    using handler_applies_line_rule [of ?r ?g] h by simp
  then show ?thesis
    using h v by simp
qed

text \<open>
  The claim without the budget fails: with a maximum of 1 and two lines that start with
  \<open>ERROR! \<close>, the second line is a line of the stderr text whose trimmed form starts with
  the prefix, and the only diagnostic is that of the first line.
\<close>

theorem handler_line_rule_counterexample:
  "startsWith
     (trim (split_lines (ascii ''ERROR! a'' @ [LF] @ ascii ''ERROR! b'') ! 1)) ERROR \<and>
   diagnostics
     (handler
        \<lparr>stdout = [], stderr = ascii ''ERROR! a'' @ [LF] @ ascii ''ERROR! b'',
         exitCode = CodeNumber 4\<rparr>
        \<lparr>diagnostics = [], maxNumberOfProblems = Value (Finite 1)\<rparr>) =
     [\<lparr>severity = Error,
       range_of = \<lparr>start = \<lparr>line = 0, character = Number_MAX_VALUE\<rparr>,
                   end_pos = \<lparr>line = 0, character = Number_MAX_VALUE\<rparr>\<rparr>,
       message = ascii ''a'', source = ascii ''ex''\<rparr>]"
  by code_simp

section \<open>The cap on the number of diagnostics\<close>

lemma line_diagnostic_elem:
  assumes "d \<in> set (line_diagnostic i l)"
  shows "line_diagnostic i l = [d]"
    and "start (range_of d) = \<lparr>line = i, character = Number_MAX_VALUE\<rparr>"
    and "end_pos (range_of d) = \<lparr>line = i, character = Number_MAX_VALUE\<rparr>"
  using assms by (auto simp: line_diagnostic_def Let_def split: if_splits)

text \<open>
  Where the loop is left: the counter counts the diagnostics added, it never passes the
  maximum, and when it reaches the maximum the loop is left right behind the line of the
  last diagnostic.
\<close>

lemma handler_loop_final_index:
  assumes "budget maxp = Some m" and "p \<le> m"
    and "handler_loop lines maxp i (p, ds) = (i', p', ds')"
  shows "p' + length ds = p + length ds' \<and> p' \<le> m \<and>
         (p = m \<longrightarrow> i' = i) \<and>
         (p < m \<and> p' = m \<longrightarrow> ds' \<noteq> [] \<and> i' = Suc (line (start (range_of (last ds')))))"
  using assms
proof (induction lines maxp i "(p, ds)" arbitrary: p ds rule: handler_loop.induct)
  case (1 lines maxp i)
  let ?ld = "line_diagnostic i (lines ! i)"
  show ?case
  proof (cases "i < length lines \<and> p < m")
    case True
    then have guard: "i < length lines \<and> js_less (fst (p, ds)) maxp"
      using "1.prems" by (simp add: js_less_budget_Some)
    have le: "p + length ?ld \<le> m"
      using True length_line_diagnostic [of i "lines ! i"] by linarith
    have body: "handler_body lines i (p, ds) = (p + length ?ld, ds @ ?ld)"
      by (simp add: handler_body_eq)
    have run: "handler_loop lines maxp (i + 1) (p + length ?ld, ds @ ?ld) = (i', p', ds')"
      using guard body handler_loop_step [of i lines "(p, ds)" maxp] "1.prems"(3) by simp
    note IH = "1.hyps" [OF guard body "1.prems"(1) le run]
    show ?thesis
    proof (cases "p + length ?ld = m")
      case full: True
      then have "length ?ld = 1"
        using True length_line_diagnostic [of i "lines ! i"] by linarith
      then obtain d where d: "?ld = [d]"
        by (cases ?ld) auto
      then have "d \<in> set ?ld" by simp
      then have "line (start (range_of d)) = i"
        using line_diagnostic_elem(2) [of d i "lines ! i"] by simp
      moreover have "\<not> (i + 1 < length lines \<and> js_less (fst (p + length ?ld, ds @ ?ld)) maxp)"
        using full "1.prems"(1) by (simp add: js_less_budget_Some)
      then have "(i', p', ds') = (i + 1, p + length ?ld, ds @ ?ld)"
        using run handler_loop_stop by metis
      ultimately show ?thesis
        using full d True by simp
    next
      case False
      then have "p + length ?ld < m" using le by simp
      then show ?thesis using IH True by auto
    qed
  next
    case False
    then have "\<not> (i < length lines \<and> js_less (fst (p, ds)) maxp)"
      using "1.prems" by (simp add: js_less_budget_Some)
    then have "handler_loop lines maxp i (p, ds) = (i, p, ds)"
      by (rule handler_loop_stop)
    then show ?thesis using "1.prems" by auto
  qed
qed

lemma classify_append:
  assumes "length (classify s m) = m" and "split_lines t = split_lines s @ rest"
  shows "classify t m = classify s m"
proof -
  let ?f = "\<lambda>(i, l). line_diagnostic i l"
  let ?A = "concat (map ?f (enumerate 0 (split_lines s)))"
  have "m \<le> length ?A"
    using assms(1) by (simp add: classify_def)
  then show ?thesis
    using assms(2) by (simp add: classify_def enumerate_append_eq)
qed

text \<open>
  C4, as amended. For every stderr text and every maximum that is a natural number
  \<open>m\<close>, the number of diagnostics is at most \<open>m\<close> and not negative. When \<open>m\<close>
  diagnostics have been emitted the scan has stopped: the loop was left right behind the
  line of the last diagnostic (at index 0 for \<open>m = 0\<close>), and lines added behind the text
  change nothing.
\<close>

theorem handler_respects_maximum:
  assumes "maxNumberOfProblems g = Value (Finite (of_nat m))"
  shows "0 \<le> int (length (diagnostics (handler r g))) \<and>
         length (diagnostics (handler r g)) \<le> m \<and>
         (length (diagnostics (handler r g)) = m \<longrightarrow>
            fst (handler_loop (split_lines (stderr r)) (maxNumberOfProblems g) 0 (0, [])) =
              (if m = 0 then 0
               else Suc (line (start (range_of (last (diagnostics (handler r g)))))))) \<and>
         (length (diagnostics (handler r g)) = m \<and>
          split_lines (stderr r') = split_lines (stderr r) @ rest \<longrightarrow>
            diagnostics (handler r' g) = diagnostics (handler r g))"
proof -
  have b: "budget (maxNumberOfProblems g) = Some m"
    using assms by (simp add: budget_nat)
  let ?lines = "split_lines (stderr r)"
  let ?run = "handler_loop ?lines (maxNumberOfProblems g) 0 (0, [])"
  obtain i' p' ds' where run: "?run = (i', p', ds')"
    by (cases ?run) auto
  have ds': "diagnostics (handler r g) = ds'"
    using run by (simp add: handler_def Let_def)
  have fin: "p' = length ds' \<and> p' \<le> m \<and> (0 = m \<longrightarrow> i' = 0) \<and>
      (0 < m \<and> p' = m \<longrightarrow> ds' \<noteq> [] \<and> i' = Suc (line (start (range_of (last ds')))))"
    using handler_loop_final_index [OF b _ run] by simp
  have "length ds' \<le> m"
    using fin by simp
  moreover have "length ds' = m \<longrightarrow>
      i' = (if m = 0 then 0 else Suc (line (start (range_of (last ds')))))"
    using fin by auto
  moreover have "length ds' = m \<and> split_lines (stderr r') = ?lines @ rest \<longrightarrow>
      diagnostics (handler r' g) = ds'"
    using classify_append [of "stderr r" m "stderr r'" rest]
      handler_classify [OF b, of r] handler_classify [OF b, of r'] ds'
    by auto
  ultimately show ?thesis
    using ds' run by simp
qed

theorem handler_respects_maximum_witness:
  "maxNumberOfProblems \<lparr>diagnostics = [], maxNumberOfProblems = Value (Finite (of_nat 1))\<rparr>
     = Value (Finite (of_nat 1)) \<and>
   length (split_lines (ascii ''note'' @ [LF] @ ascii ''ERROR! a'' @ [LF] @ ascii ''tail'')) = 3 \<and>
   length (diagnostics
     (handler
        \<lparr>stdout = [], stderr = ascii ''note'' @ [LF] @ ascii ''ERROR! a'' @ [LF] @ ascii ''tail'',
         exitCode = CodeNumber 4\<rparr>
        \<lparr>diagnostics = [], maxNumberOfProblems = Value (Finite (of_nat 1))\<rparr>)) = 1 \<and>
   fst (handler_loop
          (split_lines (ascii ''note'' @ [LF] @ ascii ''ERROR! a'' @ [LF] @ ascii ''tail''))
          (Value (Finite (of_nat 1))) 0 (0, [])) = 2 \<and>
   split_lines (ascii ''note'' @ [LF] @ ascii ''ERROR! a'' @ [LF] @ ascii ''tail'' @ [LF] @
                ascii ''ERROR! b'') =
     split_lines (ascii ''note'' @ [LF] @ ascii ''ERROR! a'' @ [LF] @ ascii ''tail'') @
     [ascii ''ERROR! b''] \<and>
   diagnostics
     (handler
        \<lparr>stdout = [],
         stderr = ascii ''note'' @ [LF] @ ascii ''ERROR! a'' @ [LF] @ ascii ''tail'' @ [LF] @
                  ascii ''ERROR! b'',
         exitCode = CodeNumber 4\<rparr>
        \<lparr>diagnostics = [], maxNumberOfProblems = Value (Finite (of_nat 1))\<rparr>) =
   diagnostics
     (handler
        \<lparr>stdout = [], stderr = ascii ''note'' @ [LF] @ ascii ''ERROR! a'' @ [LF] @ ascii ''tail'',
         exitCode = CodeNumber 4\<rparr>
        \<lparr>diagnostics = [], maxNumberOfProblems = Value (Finite (of_nat 1))\<rparr>)"
proof -
  let ?g = "\<lparr>diagnostics = [], maxNumberOfProblems = Value (Finite (of_nat 1))\<rparr>"
  let ?s = "ascii ''note'' @ [LF] @ ascii ''ERROR! a'' @ [LF] @ ascii ''tail''"
  let ?r = "\<lparr>stdout = [], stderr = ?s, exitCode = CodeNumber 4\<rparr>"
  let ?r' = "\<lparr>stdout = [], stderr = ?s @ [LF] @ ascii ''ERROR! b'', exitCode = CodeNumber 4\<rparr>"
  have h: "maxNumberOfProblems ?g = Value (Finite (of_nat 1))"
    by simp
  have n: "length (split_lines ?s) = 3"
    by code_simp
  have full: "length (diagnostics (handler ?r ?g)) = 1"
    by code_simp
  have at: "line (start (range_of (last (diagnostics (handler ?r ?g))))) = 1"
    by code_simp
  have ext: "split_lines (stderr ?r') = split_lines (stderr ?r) @ [ascii ''ERROR! b'']"
    by code_simp
  note t = handler_respects_maximum [OF h, of ?r ?r' "[ascii ''ERROR! b'']"]
  have stop: "fst (handler_loop (split_lines (stderr ?r)) (maxNumberOfProblems ?g) 0 (0, [])) = 2"
    using t full at by simp
  have same: "diagnostics (handler ?r' ?g) = diagnostics (handler ?r ?g)"
    using t full ext by blast
  show ?thesis
    using h n full stop ext same by simp
qed

text \<open>
  The claim for every configured maximum fails for a negative one: the configuration
  handler keeps \<open>-1\<close> as it is, the handler then emits no diagnostic, and 0 is not at
  most \<open>-1\<close>. It also fails for a maximum that is not an integer: with \<open>1/2\<close> one
  diagnostic is emitted.
\<close>

theorem handler_maximum_counterexample:
  "map_sum id (maxNumberOfProblems \<circ> vars)
     (onDidChangeConfiguration
        (Value \<lparr>ansibleLanguageServer =
                  Value \<lparr>maxNumberOfProblems_setting = Value (Finite (- 1))\<rparr>\<rparr>)
        [] initial_world) = Inr (Value (Finite (- 1))) \<and>
   \<not> of_nat (length (diagnostics
        (handler
           \<lparr>stdout = [], stderr = ascii ''ERROR! a'', exitCode = CodeNumber 4\<rparr>
           \<lparr>diagnostics = [], maxNumberOfProblems = Value (Finite (- 1))\<rparr>)))
      \<le> (- 1 :: rat) \<and>
   \<not> of_nat (length (diagnostics
        (handler
           \<lparr>stdout = [], stderr = ascii ''ERROR! a'', exitCode = CodeNumber 4\<rparr>
           \<lparr>diagnostics = [], maxNumberOfProblems = Value (Finite (1 / 2))\<rparr>)))
      \<le> (1 / 2 :: rat)"
proof -
  have "\<not> of_nat (length (diagnostics
        (handler
           \<lparr>stdout = [], stderr = ascii ''ERROR! a'', exitCode = CodeNumber 4\<rparr>
           \<lparr>diagnostics = [], maxNumberOfProblems = Value (Finite (- 1))\<rparr>)))
      \<le> (- 1 :: rat)"
    by code_simp
  moreover have "\<not> of_nat (length (diagnostics
        (handler
           \<lparr>stdout = [], stderr = ascii ''ERROR! a'', exitCode = CodeNumber 4\<rparr>
           \<lparr>diagnostics = [], maxNumberOfProblems = Value (Finite (1 / 2))\<rparr>)))
      \<le> (1 / 2 :: rat)"
    by code_simp
  ultimately show ?thesis
    by (simp add: onDidChangeConfiguration_def initial_world_def)
qed

section \<open>Positions\<close>

text \<open>
  What holds of every diagnostic of every line holds of every diagnostic in the list that
  the loop returns, whatever the maximum is.
\<close>

lemma handler_loop_invariant:
  assumes "\<forall>d \<in> set (snd pd). P d"
    and "\<And>i d. i < length lines \<Longrightarrow> d \<in> set (line_diagnostic i (lines ! i)) \<Longrightarrow> P d"
  shows "\<forall>d \<in> set (snd (snd (handler_loop lines maxp i pd))). P d"
  using assms
proof (induction lines maxp i pd rule: handler_loop.induct)
  case (1 lines maxp i pd)
  show ?case
  proof (cases "i < length lines \<and> js_less (fst pd) maxp")
    case True
    have "\<forall>d \<in> set (snd (handler_body lines i pd)). P d"
      using "1.prems" True by (auto simp: handler_body_eq)
    then show ?thesis
      using "1.IH" [OF True _ "1.prems"(2)] True handler_loop_step [of i lines pd maxp]
      by simp
  next
    case False
    then show ?thesis
      using "1.prems" handler_loop_stop [OF False] by simp
  qed
qed

text \<open>
  \<open>Number.MAX_VALUE\<close> is an integer, and no integer that a double holds, a mantissa
  below \<open>2^53\<close> times a power of two up to \<open>2^971\<close>, is larger.
\<close>

lemma double_integer_le_MAX_VALUE:
  assumes "\<bar>k\<bar> < 2 ^ 53" and "e \<le> 971"
  shows "k * 2 ^ e \<le> Number_MAX_VALUE"
proof -
  have "k \<le> 2 ^ 53 - 1" using assms(1) by simp
  moreover have "(2::int) ^ e \<le> 2 ^ 971" using assms(2) by (rule power_increasing) simp
  ultimately have "k * 2 ^ e \<le> (2 ^ 53 - 1) * 2 ^ 971"
    by (intro mult_mono) simp_all
  then show ?thesis by (simp only: Number_MAX_VALUE_def)
qed

text \<open>
  C5. Every diagnostic that the handler emits has a range whose start and end are the
  same position; the character of that position is \<open>Number.MAX_VALUE\<close>, and its line
  is the index, in the split stderr text, of the line the diagnostic was made from:
  the rule for the line at that index gives this diagnostic.
\<close>

theorem handler_positions:
  "\<forall>d \<in> set (diagnostics (handler r g)).
     start (range_of d) = end_pos (range_of d) \<and>
     character (start (range_of d)) = Number_MAX_VALUE \<and>
     line (start (range_of d)) < length (split_lines (stderr r)) \<and>
     line_diagnostic (line (start (range_of d)))
       (split_lines (stderr r) ! line (start (range_of d))) = [d]"
proof -
  let ?lines = "split_lines (stderr r)"
  let ?P = "\<lambda>d. start (range_of d) = end_pos (range_of d) \<and>
     character (start (range_of d)) = Number_MAX_VALUE \<and>
     line (start (range_of d)) < length ?lines \<and>
     line_diagnostic (line (start (range_of d))) (?lines ! line (start (range_of d))) = [d]"
  have eq: "diagnostics (handler r g) =
      snd (snd (handler_loop ?lines (maxNumberOfProblems g) 0 (0, [])))"
    by (simp add: handler_def Let_def)
  have "\<forall>d \<in> set (snd (snd (handler_loop ?lines (maxNumberOfProblems g) 0 (0, [])))). ?P d"
  proof (rule handler_loop_invariant)
    show "\<forall>d \<in> set (snd (0::nat, [])). ?P d" by simp
  next
    fix i d
    assume "i < length ?lines" and "d \<in> set (line_diagnostic i (?lines ! i))"
    then show "?P d"
      using line_diagnostic_elem [of d i "?lines ! i"] by simp
  qed
  then show ?thesis
    unfolding eq .
qed

theorem handler_positions_witness:
  "\<lparr>severity = Warning,
    range_of = \<lparr>start = \<lparr>line = 1, character = Number_MAX_VALUE\<rparr>,
                end_pos = \<lparr>line = 1, character = Number_MAX_VALUE\<rparr>\<rparr>,
    message = ascii ''deprecated'', source = ascii ''ex''\<rparr>
     \<in> set (diagnostics
              (handler
                 \<lparr>stdout = [], stderr = ascii ''note'' @ [CR, LF] @ ascii ''[WARNING] deprecated'',
                  exitCode = CodeNumber 0\<rparr>
                 \<lparr>diagnostics = [], maxNumberOfProblems = Value (Finite 100)\<rparr>)) \<and>
   (1::nat) < length (split_lines (ascii ''note'' @ [CR, LF] @ ascii ''[WARNING] deprecated'')) \<and>
   line_diagnostic 1
     (split_lines (ascii ''note'' @ [CR, LF] @ ascii ''[WARNING] deprecated'') ! 1) =
     [\<lparr>severity = Warning,
       range_of = \<lparr>start = \<lparr>line = 1, character = Number_MAX_VALUE\<rparr>,
                   end_pos = \<lparr>line = 1, character = Number_MAX_VALUE\<rparr>\<rparr>,
       message = ascii ''deprecated'', source = ascii ''ex''\<rparr>]"
proof -
  let ?d = "\<lparr>severity = Warning,
    range_of = \<lparr>start = \<lparr>line = 1, character = Number_MAX_VALUE\<rparr>,
                end_pos = \<lparr>line = 1, character = Number_MAX_VALUE\<rparr>\<rparr>,
    message = ascii ''deprecated'', source = ascii ''ex''\<rparr>"
  let ?r = "\<lparr>stdout = [], stderr = ascii ''note'' @ [CR, LF] @ ascii ''[WARNING] deprecated'',
             exitCode = CodeNumber 0\<rparr>"
  let ?g = "\<lparr>diagnostics = [], maxNumberOfProblems = Value (Finite 100)\<rparr>"
  have m: "?d \<in> set (diagnostics (handler ?r ?g))"
    by code_simp
  from handler_positions [of ?r ?g] m
  have "line (start (range_of ?d)) < length (split_lines (stderr ?r)) \<and>
        line_diagnostic (line (start (range_of ?d)))
          (split_lines (stderr ?r) ! line (start (range_of ?d))) = [?d]"
    by blast
  then show ?thesis
    using m by simp
qed

section \<open>Replacement of the list\<close>

text \<open>
  C10. After a run of the handler the list is what the loop produced from the stderr
  text of this run, started from the empty list: whatever list was there before the run
  has no influence on the variables after it.
\<close>

theorem handler_replaces_diagnostics:
  "handler r (g\<lparr>diagnostics := old\<rparr>) = handler r g \<and>
   diagnostics (handler r g) =
     snd (snd (handler_loop (split_lines (stderr r)) (maxNumberOfProblems g) 0 (0, [])))"
  by (simp add: handler_def Let_def)

section \<open>Validation of a document\<close>

lemma validate_not_file:
  "\<not> startsWith (uri doc) (ascii ''file:'') \<Longrightarrow> validateTextDocument doc w = w"
  by (simp add: validateTextDocument_def Let_def)

text \<open>The quotation marks around the inventory are code unit \<open>0x22\<close>.\<close>

lemma validate_file:
  assumes "startsWith (uri doc) (ascii ''file:'')"
  shows "validateTextDocument doc w =
     sendDiagnostics (uri doc) (diagnostics (vars w))
       (NodeExec_exec (ascii ''ansible-playbook'')
          [ascii ''-i'', [0x22] @ ascii ''localhost,'' @ [0x22], ascii ''-c'', ascii ''local'',
           ascii ''--syntax-check'', slice (uri doc) 7]
          handler (console_log (slice (uri doc) 7) w))"
  using assms
  by (simp add: validateTextDocument_def Let_def NodeExec_exec_def nodeExec_def console_log_def
      ascii_def)

lemma vars_NodeExec_exec: "vars (NodeExec_exec f a h w) = vars w"
  by (simp add: NodeExec_exec_def nodeExec_def Let_def)

lemma sent_NodeExec_exec: "sent (NodeExec_exec f a h w) = sent w"
  by (simp add: NodeExec_exec_def nodeExec_def Let_def)

lemma children_NodeExec_exec:
  "map cmdLine (children (NodeExec_exec f a h w)) =
   map cmdLine (children w) @ [f @ ascii '' '' @ join a (ascii '' '')]"
  by (simp add: NodeExec_exec_def nodeExec_def Let_def)

lemma vars_validate: "vars (validateTextDocument doc w) = vars w"
  by (cases "startsWith (uri doc) (ascii ''file:'')")
    (simp_all add: validate_file validate_not_file sendDiagnostics_def vars_NodeExec_exec
      console_log_def)

lemma sent_validate_file:
  assumes "startsWith (uri doc) (ascii ''file:'')"
  shows "sent (validateTextDocument doc w) =
     sent w @ [ConsoleLog (slice (uri doc) 7),
               PublishDiagnostics (uri doc) (diagnostics (vars w))]"
  by (simp add: validate_file [OF assms] sendDiagnostics_def sent_NodeExec_exec console_log_def)

lemma children_validate_file:
  assumes "startsWith (uri doc) (ascii ''file:'')"
  shows "map cmdLine (children (validateTextDocument doc w)) =
     map cmdLine (children w) @
     [ascii ''ansible-playbook -i '' @ [0x22] @ ascii ''localhost,'' @ [0x22] @
      ascii '' -c local --syntax-check '' @ slice (uri doc) 7]"
  by (simp add: validate_file [OF assms] sendDiagnostics_def children_NodeExec_exec
      console_log_def) (simp add: ascii_def)

text \<open>The child that a call of \<open>exec\<close> started terminates.\<close>

lemma exec_then_exit:
  "child_exit (length (children w)) error out err (NodeExec_exec filename args handleResult w) =
     w\<lparr>vars := handleResult
                 \<lparr>stdout = out, stderr = err,
                  exitCode = (case error of None \<Rightarrow> CodeNumber 0 | Some e \<Rightarrow> code e)\<rparr>
                 (vars w)\<rparr>"
  by (simp add: child_exit_def NodeExec_exec_def nodeExec_def Let_def new_ExecResult_def)

lemma child_exit_sendDiagnostics:
  "child_exit k error out err (sendDiagnostics u d w) =
   sendDiagnostics u d (child_exit k error out err w)"
  by (simp add: child_exit_def sendDiagnostics_def)

lemma validate_then_exit:
  assumes "startsWith (uri doc) (ascii ''file:'')"
  shows "child_exit (length (children w)) error out err (validateTextDocument doc w) =
     (sendDiagnostics (uri doc) (diagnostics (vars w)) (console_log (slice (uri doc) 7) w))
       \<lparr>vars := handler
                 \<lparr>stdout = out, stderr = err,
                  exitCode = (case error of None \<Rightarrow> CodeNumber 0 | Some e \<Rightarrow> code e)\<rparr>
                 (vars w)\<rparr>"
  using exec_then_exit [of "console_log (slice (uri doc) 7) w" error out err]
  by (simp add: validate_file [OF assms] child_exit_sendDiagnostics console_log_def)
    (simp add: sendDiagnostics_def)

lemma vars_foldl_validate:
  "vars (foldl (\<lambda>w' d. validateTextDocument d w') w docs) = vars w"
  by (induction docs arbitrary: w) (simp_all add: vars_validate)

lemma is_truthy_iff:
  "is_truthy v \<longleftrightarrow>
     \<not> (v = Undefined \<or> v = Null \<or> v = Value (Finite 0) \<or> v = Value NaN)"
  by (cases v rule: is_truthy.cases) simp_all

text \<open>
  C7. For a document whose URI does not start with \<open>file:\<close>, validation changes
  nothing: no child is started and nothing is sent.
\<close>

theorem validate_ignores_other_schemes:
  assumes "\<not> startsWith (uri doc) (ascii ''file:'')"
  shows "validateTextDocument doc w = w"
  using assms by (rule validate_not_file)

theorem validate_ignores_other_schemes_witness:
  "\<not> startsWith (uri \<lparr>uri = ascii ''untitled:Untitled-1''\<rparr>) (ascii ''file:'') \<and>
   validateTextDocument \<lparr>uri = ascii ''untitled:Untitled-1''\<rparr> initial_world = initial_world"
proof -
  have h: "\<not> startsWith (uri \<lparr>uri = ascii ''untitled:Untitled-1''\<rparr>) (ascii ''file:'')"
    by (simp add: startsWith_def ascii_def)
  show ?thesis
    using h validate_ignores_other_schemes [OF h, of initial_world] by simp
qed

text \<open>
  C8. For the document \<open>file:///tmp/play.yml\<close>, validation calls the runner with the
  command \<open>ansible-playbook\<close> and the arguments \<open>-i\<close>, \<open>"localhost,"\<close> (with its
  quotation marks), \<open>-c\<close>, \<open>local\<close>, \<open>--syntax-check\<close>, \<open>/tmp/play.yml\<close> in this
  order, with \<open>handler\<close> as the callback; the path is the URI without its first 7 code
  units, and the child gets these joined by blanks as its command line.
\<close>

theorem validate_runs_syntax_check:
  "validateTextDocument \<lparr>uri = ascii ''file:///tmp/play.yml''\<rparr> w =
     sendDiagnostics (ascii ''file:///tmp/play.yml'') (diagnostics (vars w))
       (NodeExec_exec (ascii ''ansible-playbook'')
          [ascii ''-i'', [0x22] @ ascii ''localhost,'' @ [0x22], ascii ''-c'', ascii ''local'',
           ascii ''--syntax-check'', ascii ''/tmp/play.yml'']
          handler (console_log (ascii ''/tmp/play.yml'') w)) \<and>
   slice (ascii ''file:///tmp/play.yml'') 7 = ascii ''/tmp/play.yml'' \<and>
   map cmdLine (children (validateTextDocument \<lparr>uri = ascii ''file:///tmp/play.yml''\<rparr> w)) =
     map cmdLine (children w) @
     [ascii ''ansible-playbook -i '' @ [0x22] @ ascii ''localhost,'' @ [0x22] @
      ascii '' -c local --syntax-check /tmp/play.yml'']"
proof -
  let ?doc = "\<lparr>uri = ascii ''file:///tmp/play.yml''\<rparr>"
  have f: "startsWith (uri ?doc) (ascii ''file:'')"
    by (simp add: startsWith_def ascii_def)
  have p: "slice (ascii ''file:///tmp/play.yml'') 7 = ascii ''/tmp/play.yml''"
    by (simp add: slice_def ascii_def)
  show ?thesis
    using validate_file [OF f, of w] children_validate_file [OF f, of w] p
    by (simp add: ascii_def)
qed

section \<open>The command runner\<close>

text \<open>
  C9. A call of the runner starts one child, with the command and the arguments joined
  by blanks as its command line. When this child terminates, the callback
  \<open>handleResult\<close> is applied once, to the result with the captured stdout and stderr
  text and with the exit code 0 when there is no error and the code of the error
  otherwise, and the child is gone, so that it is not applied again. An error takes the
  same way as a success.
\<close>

theorem exec_delivers_result_once:
  "map cmdLine (children (NodeExec_exec filename args handleResult w)) =
     map cmdLine (children w) @ [filename @ ascii '' '' @ join args (ascii '' '')] \<and>
   child_exit (length (children w)) error out err (NodeExec_exec filename args handleResult w) =
     w\<lparr>vars := handleResult
                 \<lparr>stdout = out, stderr = err,
                  exitCode = (case error of None \<Rightarrow> CodeNumber 0 | Some e \<Rightarrow> code e)\<rparr>
                 (vars w)\<rparr>"
  by (simp add: children_NodeExec_exec exec_then_exit)

section \<open>The order of publishing and classifying\<close>

text \<open>
  C1. A validation of a document whose URI starts with \<open>file:\<close> starts one child and
  publishes the list that the variable holds at that moment, before the callback of the
  child has run. When the child terminates, its callback puts the classification of its
  stderr text into the variable and sends nothing. A later validation publishes that
  classification.
\<close>

theorem validate_publishes_earlier_list:
  assumes "startsWith (uri doc) (ascii ''file:'')"
    and "startsWith (uri later) (ascii ''file:'')"
  shows "sent (validateTextDocument doc w) =
           sent w @ [ConsoleLog (slice (uri doc) 7),
                     PublishDiagnostics (uri doc) (diagnostics (vars w))] \<and>
         length (children (validateTextDocument doc w)) = Suc (length (children w)) \<and>
         sent (child_exit (length (children w)) error out err (validateTextDocument doc w)) =
           sent (validateTextDocument doc w) \<and>
         diagnostics (vars (child_exit (length (children w)) error out err
                              (validateTextDocument doc w))) =
           diagnostics (handler
              \<lparr>stdout = out, stderr = err,
               exitCode = (case error of None \<Rightarrow> CodeNumber 0 | Some e \<Rightarrow> code e)\<rparr>
              (vars w)) \<and>
         sent (validateTextDocument later
                 (child_exit (length (children w)) error out err (validateTextDocument doc w))) =
           sent (validateTextDocument doc w) @
           [ConsoleLog (slice (uri later) 7),
            PublishDiagnostics (uri later)
              (diagnostics (handler
                 \<lparr>stdout = out, stderr = err,
                  exitCode = (case error of None \<Rightarrow> CodeNumber 0 | Some e \<Rightarrow> code e)\<rparr>
                 (vars w)))]"
proof -
  let ?w1 = "validateTextDocument doc w"
  let ?w2 = "child_exit (length (children w)) error out err ?w1"
  let ?res = "\<lparr>stdout = out, stderr = err,
               exitCode = (case error of None \<Rightarrow> CodeNumber 0 | Some e \<Rightarrow> code e)\<rparr>"
  have s1: "sent ?w1 = sent w @ [ConsoleLog (slice (uri doc) 7),
                     PublishDiagnostics (uri doc) (diagnostics (vars w))]"
    by (rule sent_validate_file [OF assms(1)])
  have n: "length (children ?w1) = Suc (length (children w))"
    using children_validate_file [OF assms(1), of w, THEN arg_cong, of length] by simp
  have w2: "?w2 = (sendDiagnostics (uri doc) (diagnostics (vars w))
                     (console_log (slice (uri doc) 7) w))\<lparr>vars := handler ?res (vars w)\<rparr>"
    by (rule validate_then_exit [OF assms(1)])
  have s2: "sent ?w2 = sent ?w1"
    by (simp add: w2 s1 sendDiagnostics_def console_log_def)
  have v2: "vars ?w2 = handler ?res (vars w)"
    by (simp add: w2)
  have s3: "sent (validateTextDocument later ?w2) =
      sent ?w1 @ [ConsoleLog (slice (uri later) 7),
                  PublishDiagnostics (uri later) (diagnostics (handler ?res (vars w)))]"
    using sent_validate_file [OF assms(2), of ?w2] s2 v2 by simp
  show ?thesis
    using s1 n s2 v2 s3 by simp
qed

text \<open>
  From the start of the server, with the maximum set to 100: the first validation of
  \<open>file:///tmp/play.yml\<close> publishes the empty list; the child fails with the line
  \<open>ERROR! bad\<close> on stderr; the second validation publishes the Error of that line.
\<close>

theorem validate_publishes_earlier_list_witness:
  "startsWith (uri \<lparr>uri = ascii ''file:///tmp/play.yml''\<rparr>) (ascii ''file:'') \<and>
   sent (validateTextDocument \<lparr>uri = ascii ''file:///tmp/play.yml''\<rparr>
           (initial_world\<lparr>vars := \<lparr>diagnostics = [],
                                       maxNumberOfProblems = Value (Finite 100)\<rparr>\<rparr>)) =
     [ConsoleLog (ascii ''/tmp/play.yml''),
      PublishDiagnostics (ascii ''file:///tmp/play.yml'') []] \<and>
   sent (validateTextDocument \<lparr>uri = ascii ''file:///tmp/play.yml''\<rparr>
           (child_exit 0 (Some \<lparr>code = CodeNumber 4\<rparr>) [] (ascii ''ERROR! bad'')
              (validateTextDocument \<lparr>uri = ascii ''file:///tmp/play.yml''\<rparr>
                 (initial_world\<lparr>vars := \<lparr>diagnostics = [],
                                             maxNumberOfProblems = Value (Finite 100)\<rparr>\<rparr>)))) =
     [ConsoleLog (ascii ''/tmp/play.yml''),
      PublishDiagnostics (ascii ''file:///tmp/play.yml'') [],
      ConsoleLog (ascii ''/tmp/play.yml''),
      PublishDiagnostics (ascii ''file:///tmp/play.yml'')
        [\<lparr>severity = Error,
          range_of = \<lparr>start = \<lparr>line = 0, character = Number_MAX_VALUE\<rparr>,
                      end_pos = \<lparr>line = 0, character = Number_MAX_VALUE\<rparr>\<rparr>,
          message = ascii ''bad'', source = ascii ''ex''\<rparr>]]"
proof -
  let ?doc = "\<lparr>uri = ascii ''file:///tmp/play.yml''\<rparr>"
  let ?g = "\<lparr>diagnostics = [], maxNumberOfProblems = Value (Finite 100)\<rparr>"
  let ?w = "initial_world\<lparr>vars := ?g\<rparr>"
  have h: "startsWith (uri ?doc) (ascii ''file:'')"
    by (simp add: startsWith_def ascii_def)
  have c: "length (children ?w) = 0" and s: "sent ?w = []" and g: "vars ?w = ?g"
    by (simp_all add: initial_world_def)
  have p: "slice (uri ?doc) 7 = ascii ''/tmp/play.yml''"
    by (simp add: slice_def ascii_def)
  have v: "diagnostics (handler
             \<lparr>stdout = [], stderr = ascii ''ERROR! bad'', exitCode = CodeNumber 4\<rparr> ?g) =
        [\<lparr>severity = Error,
          range_of = \<lparr>start = \<lparr>line = 0, character = Number_MAX_VALUE\<rparr>,
                      end_pos = \<lparr>line = 0, character = Number_MAX_VALUE\<rparr>\<rparr>,
          message = ascii ''bad'', source = ascii ''ex''\<rparr>]"
    by code_simp
  have e: "(case Some \<lparr>code = CodeNumber 4\<rparr> of None \<Rightarrow> CodeNumber 0 | Some e \<Rightarrow> code e) =
      CodeNumber 4"
    by simp
  note t = validate_publishes_earlier_list [OF h h, of ?w "Some \<lparr>code = CodeNumber 4\<rparr>" "[]"
      "ascii ''ERROR! bad''", unfolded c s g p e v]
  have first: "sent (validateTextDocument ?doc ?w) =
      [] @ [ConsoleLog (ascii ''/tmp/play.yml''),
            PublishDiagnostics (uri ?doc) []]"
    using t by simp
  have second: "sent (validateTextDocument ?doc
           (child_exit 0 (Some \<lparr>code = CodeNumber 4\<rparr>) [] (ascii ''ERROR! bad'')
              (validateTextDocument ?doc ?w))) =
      sent (validateTextDocument ?doc ?w) @
      [ConsoleLog (ascii ''/tmp/play.yml''),
       PublishDiagnostics (uri ?doc)
        [\<lparr>severity = Error,
          range_of = \<lparr>start = \<lparr>line = 0, character = Number_MAX_VALUE\<rparr>,
                      end_pos = \<lparr>line = 0, character = Number_MAX_VALUE\<rparr>\<rparr>,
          message = ascii ''bad'', source = ascii ''ex''\<rparr>]]"
    using t by simp
  show ?thesis
    using h by (simp add: first second)
qed

section \<open>The maximum before and after a change of the configuration\<close>

text \<open>
  C6. At the start the maximum is \<open>undefined\<close>. The guard of the loop is false for an
  undefined maximum, so that the handler leaves the empty list for every stderr text,
  also one with matching lines. Neither
  the handler nor a validation assigns the maximum. A change of the configuration that
  brings no value makes it 100, and from then on a matching line gives a diagnostic.
\<close>

theorem handler_before_configuration:
  "maxNumberOfProblems (vars initial_world) = Undefined \<and>
   \<not> js_less problems Undefined \<and>
   diagnostics (handler r (g\<lparr>maxNumberOfProblems := Undefined\<rparr>)) = [] \<and>
   maxNumberOfProblems (handler r g) = maxNumberOfProblems g \<and>
   maxNumberOfProblems (vars (validateTextDocument doc w)) = maxNumberOfProblems (vars w) \<and>
   map_sum id (maxNumberOfProblems \<circ> vars)
     (onDidChangeConfiguration
        (Value \<lparr>ansibleLanguageServer = Value \<lparr>maxNumberOfProblems_setting = Undefined\<rparr>\<rparr>)
        docs w) =
     Inr (Value (Finite 100)) \<and>
   length (diagnostics
     (handler \<lparr>stdout = [], stderr = ascii ''ERROR! bad'', exitCode = CodeNumber 4\<rparr>
        \<lparr>diagnostics = [], maxNumberOfProblems = Value (Finite 100)\<rparr>)) = 1"
proof -
  have "length (diagnostics
     (handler \<lparr>stdout = [], stderr = ascii ''ERROR! bad'', exitCode = CodeNumber 4\<rparr>
        \<lparr>diagnostics = [], maxNumberOfProblems = Value (Finite 100)\<rparr>)) = 1"
    by code_simp
  then show ?thesis
    by (simp add: initial_world_def handler_def Let_def js_less_def handler_loop_stop
      vars_validate onDidChangeConfiguration_def vars_foldl_validate)
qed

section \<open>The maximum that a change of the configuration resolves\<close>

text \<open>
  C2, as amended. When the settings and the nested object \<open>ansibleLanguageServer\<close> can
  be read (neither is \<open>undefined\<close> or \<open>null\<close>), the handler ends normally and the
  maximum is 100 if the configured value is absent, \<open>null\<close>, 0 or not-a-number, and the
  configured value otherwise. When the settings or the nested object are absent or
  \<open>null\<close>, the handler throws a \<open>TypeError\<close> and assigns nothing.
\<close>

theorem configuration_resolves_maximum:
  assumes "ansibleLanguageServer s = Value a"
    and "absent = Undefined \<or> absent = Null \<or>
         absent = Value \<lparr>ansibleLanguageServer = Undefined\<rparr> \<or>
         absent = Value \<lparr>ansibleLanguageServer = Null\<rparr>"
  shows "(\<exists>w'. onDidChangeConfiguration (Value s) docs w = Inr w' \<and>
            maxNumberOfProblems (vars w') =
              (if maxNumberOfProblems_setting a = Undefined \<or>
                  maxNumberOfProblems_setting a = Null \<or>
                  maxNumberOfProblems_setting a = Value (Finite 0) \<or>
                  maxNumberOfProblems_setting a = Value NaN
               then Value (Finite 100) else maxNumberOfProblems_setting a)) \<and>
         onDidChangeConfiguration absent docs w = Inl TypeError"
proof -
  have "onDidChangeConfiguration absent docs w = Inl TypeError"
    using assms(2) by (auto simp: onDidChangeConfiguration_def)
  moreover have "\<exists>w'. onDidChangeConfiguration (Value s) docs w = Inr w' \<and>
            maxNumberOfProblems (vars w') =
              (if maxNumberOfProblems_setting a = Undefined \<or>
                  maxNumberOfProblems_setting a = Null \<or>
                  maxNumberOfProblems_setting a = Value (Finite 0) \<or>
                  maxNumberOfProblems_setting a = Value NaN
               then Value (Finite 100) else maxNumberOfProblems_setting a)"
    using assms(1) is_truthy_iff [of "maxNumberOfProblems_setting a"]
    by (simp add: onDidChangeConfiguration_def vars_foldl_validate)
  ultimately show ?thesis by simp
qed

text \<open>
  An explicit 0 resolves to 100 and 25 stays 25; the settings \<open>{}\<close>, without the nested
  object, make the handler throw.
\<close>

theorem configuration_resolves_maximum_witness:
  "ansibleLanguageServer
     \<lparr>ansibleLanguageServer = Value \<lparr>maxNumberOfProblems_setting = Value (Finite 0)\<rparr>\<rparr> =
     Value \<lparr>maxNumberOfProblems_setting = Value (Finite 0)\<rparr> \<and>
   (\<exists>w'. onDidChangeConfiguration
           (Value \<lparr>ansibleLanguageServer =
                     Value \<lparr>maxNumberOfProblems_setting = Value (Finite 0)\<rparr>\<rparr>)
           [] initial_world = Inr w' \<and>
         maxNumberOfProblems (vars w') = Value (Finite 100)) \<and>
   (\<exists>w'. onDidChangeConfiguration
           (Value \<lparr>ansibleLanguageServer =
                     Value \<lparr>maxNumberOfProblems_setting = Value (Finite 25)\<rparr>\<rparr>)
           [] initial_world = Inr w' \<and>
         maxNumberOfProblems (vars w') = Value (Finite 25)) \<and>
   onDidChangeConfiguration (Value \<lparr>ansibleLanguageServer = Undefined\<rparr>) [] initial_world =
     Inl TypeError"
proof -
  let ?zero = "\<lparr>ansibleLanguageServer = Value \<lparr>maxNumberOfProblems_setting = Value (Finite 0)\<rparr>\<rparr>"
  let ?some = "\<lparr>ansibleLanguageServer = Value \<lparr>maxNumberOfProblems_setting = Value (Finite 25)\<rparr>\<rparr>"
  let ?absent = "Value \<lparr>ansibleLanguageServer = Undefined\<rparr> :: Settings nullable"
  have a: "ansibleLanguageServer ?zero = Value \<lparr>maxNumberOfProblems_setting = Value (Finite 0)\<rparr>"
    by simp
  have b: "ansibleLanguageServer ?some = Value \<lparr>maxNumberOfProblems_setting = Value (Finite 25)\<rparr>"
    by simp
  have c: "?absent = Undefined \<or> ?absent = Null \<or>
         ?absent = Value \<lparr>ansibleLanguageServer = Undefined\<rparr> \<or>
         ?absent = Value \<lparr>ansibleLanguageServer = Null\<rparr>"
    by simp
  show ?thesis
    using configuration_resolves_maximum [OF a c, of "[]" initial_world]
      configuration_resolves_maximum [OF b c, of "[]" initial_world] a
    by simp
qed

text \<open>
  The claim fails for a payload without the nested object: for the settings \<open>{}\<close> the
  handler throws, and no maximum of 100 is resolved.
\<close>

theorem configuration_without_nested_object_counterexample:
  "onDidChangeConfiguration (Value \<lparr>ansibleLanguageServer = Undefined\<rparr>) [] initial_world =
     Inl TypeError"
  by (simp add: onDidChangeConfiguration_def)

end
